theory Spec2Isabelle
  imports Complex_Main "HOL-Library.Word"
begin

section \<open>JavaScript values\<close>

text \<open>
  A JavaScript string is a sequence of UTF-16 code units. The Japanese literals of
  \<^verbatim>\<open>route.ts\<close> are written out as their code units; ASCII literals go through
  \<open>ascii\<close>.
\<close>

type_synonym jsstring = "16 word list"

definition ascii :: "string \<Rightarrow> jsstring" where
  "ascii s = map of_char s"

text \<open>
  The values that \<^verbatim>\<open>JSON.parse\<close> produces, plus \<^verbatim>\<open>undefined\<close> (what reading an
  absent property gives). A number is kept as a rational: the handler only tests it
  for zero and passes it on. A parsed object has each key once, so looking a key up
  in the property list is \<open>map_of\<close>.
\<close>

datatype jsval =
    JUndefined
  | JNull
  | JBool bool
  | JNum rat
  | JStr jsstring
  | JArr "jsval list"
  | JObj "(jsstring \<times> jsval) list"

text \<open>ToBoolean, as \<^verbatim>\<open>!x\<close> and \<^verbatim>\<open>x ? a : b\<close> apply it.\<close>

fun truthy :: "jsval \<Rightarrow> bool" where
  "truthy JUndefined = False"
| "truthy JNull = False"
| "truthy (JBool b) = b"
| "truthy (JNum n) = (n \<noteq> 0)"
| "truthy (JStr s) = (s \<noteq> [])"
| "truthy (JArr xs) = True"
| "truthy (JObj kvs) = True"

text \<open>
  What is thrown: the \<^verbatim>\<open>TypeError\<close> that the handler's own property reads raise on
  \<^verbatim>\<open>null\<close> and \<^verbatim>\<open>undefined\<close>, or an exception raised by a collaborator
  (request parsing, \<^verbatim>\<open>fetch\<close>, the email client), carried with its message.
\<close>

datatype exn = TypeError | Thrown jsstring

text \<open>
  Reading a property \<^verbatim>\<open>v.k\<close> or \<^verbatim>\<open>v[k]\<close>, for the keys this handler reads
  (\<^verbatim>\<open>company\<close>, \<^verbatim>\<open>name\<close>, \<^verbatim>\<open>email\<close>, \<^verbatim>\<open>phone\<close>, \<^verbatim>\<open>message\<close>, \<^verbatim>\<open>privacyPolicy\<close>,
  \<^verbatim>\<open>turnstileToken\<close>, \<^verbatim>\<open>success\<close>, \<^verbatim>\<open>error-codes\<close>): none of them is a property of
  the prototypes of arrays, strings, numbers or booleans, so only an object can hold
  one. On \<^verbatim>\<open>null\<close> and \<^verbatim>\<open>undefined\<close> the read throws.
\<close>

fun get_prop :: "jsval \<Rightarrow> jsstring \<Rightarrow> exn + jsval" where
  "get_prop JUndefined k = Inl TypeError"
| "get_prop JNull k = Inl TypeError"
| "get_prop (JObj kvs) k = Inr (case map_of kvs k of None \<Rightarrow> JUndefined | Some v \<Rightarrow> v)"
| "get_prop v k = Inr JUndefined"

section \<open>Collaborators and effects\<close>

text \<open>
  The second argument of \<^verbatim>\<open>fetch\<close>. The source passes
  \<^verbatim>\<open>body: JSON.stringify(obj)\<close>; the model keeps \<open>obj\<close> itself.
\<close>

record fetch_init =
  init_method :: jsstring
  init_headers :: "(jsstring \<times> jsstring) list"
  init_body :: jsval

text \<open>
  What the handler reads of a \<^verbatim>\<open>fetch\<close> response: \<^verbatim>\<open>json()\<close>, \<^verbatim>\<open>text()\<close> (each
  may throw) and \<^verbatim>\<open>ok\<close>, which the platform sets from the status.
\<close>

record fetch_response =
  res_status :: nat
  res_json :: "exn + jsval"
  res_text :: "exn + jsstring"

definition ok :: "fetch_response \<Rightarrow> bool" where
  "ok r = (200 \<le> res_status r \<and> res_status r \<le> 299)"

text \<open>
  The HTML of the confirmation email is a template literal. Its fixed markup is kept
  by position (\<open>Markup i\<close> is the \<open>i\<close>-th literal chunk of the template, the two chunks
  of the nested phone template being 7 and 8); the interpolated strings are kept in
  full.
\<close>

datatype html_piece = Markup nat | Interp jsstring

record email_message =
  mail_from :: jsstring
  mail_to :: jsval
  mail_subject :: jsstring
  mail_html :: "html_piece list"

text \<open>
  The effects of one request, in the order they happen: outbound calls
  (\<^verbatim>\<open>fetch\<close>, \<^verbatim>\<open>resend.emails.send\<close>) and \<^verbatim>\<open>console.error\<close> lines.
\<close>

datatype log_arg = LogStr jsstring | LogVal jsval | LogExn exn

datatype event =
    Fetch jsstring fetch_init
  | EmailsSend email_message
  | ConsoleError "log_arg list"

text \<open>
  Everything outside the handler that one run depends on: the process environment,
  the result of \<^verbatim>\<open>request.json()\<close>, the behaviour of \<^verbatim>\<open>fetch\<close> and of the email
  client (built at module load from \<^verbatim>\<open>RESEND_API_KEY\<close>), the clock, and the runtime's
  conversion of a non-string value to a string inside a template literal.
\<close>

record world =
  CF_SECRET_KEY :: "jsstring option"
  WEBHOOK_URL :: "jsstring option"
  RESEND_API_KEY :: "jsstring option"
  request_json :: "exn + jsval"
  fetch :: "jsstring \<Rightarrow> fetch_init \<Rightarrow> exn + fetch_response"
  emails_send :: "jsstring option \<Rightarrow> email_message \<Rightarrow> exn + unit"
  to_string :: "jsval \<Rightarrow> exn + jsstring"
  now_iso :: jsstring

text \<open>\<^verbatim>\<open>process.env.X\<close> as a value: \<^verbatim>\<open>undefined\<close> when unset.\<close>

definition env_val :: "jsstring option \<Rightarrow> jsval" where
  "env_val x = (case x of None \<Rightarrow> JUndefined | Some s \<Rightarrow> JStr s)"

definition ToString :: "world \<Rightarrow> jsval \<Rightarrow> exn + jsstring" where
  "ToString w v = (case v of JStr s \<Rightarrow> Inr s | _ \<Rightarrow> to_string w v)"

section \<open>The handler\<close>

record ContactFormData =
  company :: jsval
  name :: jsval
  email :: jsval
  phone :: jsval
  message :: jsval
  privacyPolicy :: jsval
  turnstileToken :: jsval

record next_response =
  resp_body :: jsval
  resp_status :: nat

text \<open>\<^verbatim>\<open>NextResponse.json({ message: m }, { status: s })\<close>\<close>

definition NextResponse_json :: "jsstring \<Rightarrow> nat \<Rightarrow> next_response" where
  "NextResponse_json m s = \<lparr>resp_body = JObj [(ascii ''message'', JStr m)], resp_status = s\<rparr>"

subsection \<open>String literals\<close>

text \<open>"Please fill in all required fields" (line 31).\<close>

definition MSG_REQUIRED :: jsstring where
  "MSG_REQUIRED = [0x5FC5, 0x9808, 0x9805, 0x76EE, 0x3092, 0x3059, 0x3079, 0x3066,
     0x5165, 0x529B, 0x3057, 0x3066, 0x304F, 0x3060, 0x3055, 0x3044]"

text \<open>"Bot verification failed. Please try again." (line 54).\<close>

definition MSG_BOT :: jsstring where
  "MSG_BOT = [0x30DC, 0x30C3, 0x30C8, 0x691C, 0x8A3C, 0x306B, 0x5931, 0x6557, 0x3057,
     0x307E, 0x3057, 0x305F, 0x3002, 0x3082, 0x3046, 0x4E00, 0x5EA6, 0x304A, 0x8A66,
     0x3057, 0x304F, 0x3060, 0x3055, 0x3044, 0x3002]"

text \<open>"A server error occurred" (lines 64 and 179).\<close>

definition MSG_SERVER :: jsstring where
  "MSG_SERVER = [0x30B5, 0x30FC, 0x30D0, 0x30FC, 0x30A8, 0x30E9, 0x30FC, 0x304C,
     0x767A, 0x751F, 0x3057, 0x307E, 0x3057, 0x305F]"

text \<open>"Sending failed. Please try again." (line 121).\<close>

definition MSG_SEND_FAILED :: jsstring where
  "MSG_SEND_FAILED = [0x9001, 0x4FE1, 0x306B, 0x5931, 0x6557, 0x3057, 0x307E, 0x3057,
     0x305F, 0x3002, 0x3082, 0x3046, 0x4E00, 0x5EA6, 0x304A, 0x8A66, 0x3057, 0x304F,
     0x3060, 0x3055, 0x3044, 0x3002]"

text \<open>"Sending is complete" (line 173).\<close>

definition MSG_DONE :: jsstring where
  "MSG_DONE = [0x9001, 0x4FE1, 0x304C, 0x5B8C, 0x4E86, 0x3057, 0x307E, 0x3057, 0x305F]"

text \<open>The embed's title (line 73): an envelope emoji (a surrogate pair), a space, "new inquiry".\<close>

definition EMBED_TITLE :: jsstring where
  "EMBED_TITLE = [0xD83D, 0xDCE7, 0x0020, 0x65B0, 0x3057, 0x3044, 0x304A, 0x554F,
     0x3044, 0x5408, 0x308F, 0x305B]"

text \<open>
  The field labels (lines 77, 82, 87, 92, 97): "company name", "full name",
  "email address", "telephone number", "content of the inquiry".
\<close>

definition LABEL_COMPANY :: jsstring where
  "LABEL_COMPANY = [0x4F1A, 0x793E, 0x540D]"

definition LABEL_NAME :: jsstring where
  "LABEL_NAME = [0x6C0F, 0x540D]"

definition LABEL_EMAIL :: jsstring where
  "LABEL_EMAIL = [0x30E1, 0x30FC, 0x30EB, 0x30A2, 0x30C9, 0x30EC, 0x30B9]"

definition LABEL_PHONE :: jsstring where
  "LABEL_PHONE = [0x96FB, 0x8A71, 0x756A, 0x53F7]"

definition LABEL_MESSAGE :: jsstring where
  "LABEL_MESSAGE = [0x304A, 0x554F, 0x3044, 0x5408, 0x308F, 0x305B, 0x5185, 0x5BB9]"

text \<open>The organisation's name (lines 104, 129, 131).\<close>

definition ORG_NAME :: jsstring where
  "ORG_NAME = [0x682A, 0x5F0F, 0x4F1A, 0x793E, 0x30D5, 0x30A1, 0x30F3, 0x30A8, 0x30AF, 0x30B9]"

definition MAIL_FROM :: jsstring where
  "MAIL_FROM = ORG_NAME @ ascii '' <noreply@funex.co.jp>''"

text \<open>"Your inquiry has been received - " followed by the organisation's name (line 131).\<close>

definition MAIL_SUBJECT :: jsstring where
  "MAIL_SUBJECT = [0x304A, 0x554F, 0x3044, 0x5408, 0x308F, 0x305B, 0x3092, 0x53D7,
     0x3051, 0x4ED8, 0x3051, 0x307E, 0x3057, 0x305F] @ ascii '' - '' @ ORG_NAME"

definition turnstileVerifyUrl :: jsstring where
  "turnstileVerifyUrl = ascii ''https://challenges.cloudflare.com/turnstile/v0/siteverify''"

definition json_headers :: "(jsstring \<times> jsstring) list" where
  "json_headers = [(ascii ''Content-Type'', ascii ''application/json'')]"

subsection \<open>Stage 1: reading and validating the body (lines 25-34)\<close>

text \<open>
  \<^verbatim>\<open>const { company, name, email, phone, message, privacyPolicy, turnstileToken } = body\<close>:
  destructuring \<^verbatim>\<open>null\<close> throws; any other value gives each property or \<^verbatim>\<open>undefined\<close>.
\<close>

definition read_prop :: "jsval \<Rightarrow> string \<Rightarrow> jsval" where
  "read_prop v k = (case get_prop v (ascii k) of Inl e \<Rightarrow> JUndefined | Inr x \<Rightarrow> x)"

definition destructure :: "jsval \<Rightarrow> exn + ContactFormData" where
  "destructure b =
     (case get_prop b (ascii ''company'') of
        Inl e \<Rightarrow> Inl e
      | Inr c \<Rightarrow> Inr \<lparr>company = c, name = read_prop b ''name'', email = read_prop b ''email'',
                      phone = read_prop b ''phone'', message = read_prop b ''message'',
                      privacyPolicy = read_prop b ''privacyPolicy'',
                      turnstileToken = read_prop b ''turnstileToken''\<rparr>)"

text \<open>The condition of line 29, negated: every required field is truthy.\<close>

definition required_present :: "ContactFormData \<Rightarrow> bool" where
  "required_present f =
     (\<not> (\<not> truthy (company f) \<or> \<not> truthy (name f) \<or> \<not> truthy (email f) \<or>
         \<not> truthy (message f) \<or> \<not> truthy (privacyPolicy f) \<or> \<not> truthy (turnstileToken f)))"

subsection \<open>Stage 4: the confirmation email (lines 127-170)\<close>

definition then_exn :: "exn + 'a \<Rightarrow> ('a \<Rightarrow> exn + 'b) \<Rightarrow> exn + 'b" where
  "then_exn r k = (case r of Inl e \<Rightarrow> Inl e | Inr x \<Rightarrow> k x)"

text \<open>
  The template literal of lines 132-165, its substitutions converted left to right:
  name, company, name, email, the phone paragraph when phone is truthy, message.
\<close>

definition confirmation_html :: "world \<Rightarrow> ContactFormData \<Rightarrow> exn + html_piece list" where
  "confirmation_html w f =
     then_exn (ToString w (name f)) (\<lambda>n1.
     then_exn (ToString w (company f)) (\<lambda>c.
     then_exn (ToString w (name f)) (\<lambda>n2.
     then_exn (ToString w (email f)) (\<lambda>e.
     then_exn (if truthy (phone f)
               then then_exn (ToString w (phone f)) (\<lambda>p. Inr [Markup 7, Interp p, Markup 8])
               else Inr []) (\<lambda>ph.
     then_exn (ToString w (message f)) (\<lambda>m.
       Inr ([Markup 0, Interp n1, Markup 1, Interp c, Markup 2, Interp n2, Markup 3, Interp e,
             Markup 4] @ ph @ [Markup 5, Interp m, Markup 6])))))))"

definition confirmation_email :: "ContactFormData \<Rightarrow> html_piece list \<Rightarrow> email_message" where
  "confirmation_email f h =
     \<lparr>mail_from = MAIL_FROM, mail_to = email f, mail_subject = MAIL_SUBJECT, mail_html = h\<rparr>"

text \<open>
  The inner \<^verbatim>\<open>try\<close>/\<^verbatim>\<open>catch\<close>: whatever is thrown while the message is built or sent
  is logged and dropped. The result is the effects of the block.
\<close>

definition send_confirmation :: "world \<Rightarrow> ContactFormData \<Rightarrow> event list" where
  "send_confirmation w f =
     (case confirmation_html w f of
        Inl e \<Rightarrow> [ConsoleError [LogStr (ascii ''Email sending failed:''), LogExn e]]
      | Inr h \<Rightarrow>
          (case emails_send w (RESEND_API_KEY w) (confirmation_email f h) of
             Inl e \<Rightarrow> [EmailsSend (confirmation_email f h),
                       ConsoleError [LogStr (ascii ''Email sending failed:''), LogExn e]]
           | Inr u \<Rightarrow> [EmailsSend (confirmation_email f h)]))"

subsection \<open>Stage 3: the webhook notification (lines 60-124)\<close>

definition embed_field :: "jsstring \<Rightarrow> jsval \<Rightarrow> bool \<Rightarrow> jsval" where
  "embed_field label v inl =
     JObj [(ascii ''name'', JStr label), (ascii ''value'', v), (ascii ''inline'', JBool inl)]"

text \<open>The \<^verbatim>\<open>fields\<close> array of lines 75-101.\<close>

definition form_fields :: "ContactFormData \<Rightarrow> jsval list" where
  "form_fields f =
     [embed_field LABEL_COMPANY (company f) True,
      embed_field LABEL_NAME (name f) True,
      embed_field LABEL_EMAIL (email f) False]
     @ (if truthy (phone f) then [embed_field LABEL_PHONE (phone f) False] else [])
     @ [embed_field LABEL_MESSAGE (message f) False]"

definition discordPayload :: "world \<Rightarrow> ContactFormData \<Rightarrow> jsval" where
  "discordPayload w f =
     JObj [(ascii ''embeds'',
       JArr [JObj [(ascii ''title'', JStr EMBED_TITLE),
                   (ascii ''color'', JNum 0x0066cc),
                   (ascii ''fields'', JArr (form_fields f)),
                   (ascii ''timestamp'', JStr (now_iso w)),
                   (ascii ''footer'', JObj [(ascii ''text'', JStr ORG_NAME)])]])]"

definition webhook_init :: "world \<Rightarrow> ContactFormData \<Rightarrow> fetch_init" where
  "webhook_init w f =
     \<lparr>init_method = ascii ''POST'', init_headers = json_headers,
      init_body = discordPayload w f\<rparr>"

text \<open>
  The result of a stage: what it returned (a response) or threw, and its effects.
\<close>

type_synonym outcome = "(exn + next_response) \<times> event list"

definition notify :: "world \<Rightarrow> ContactFormData \<Rightarrow> outcome" where
  "notify w f =
     (if \<not> truthy (env_val (WEBHOOK_URL w)) then
        (Inr (NextResponse_json MSG_SERVER 500),
         [ConsoleError [LogStr (ascii ''WEBHOOK_URL is not configured'')]])
      else
        let webhookUrl = the (WEBHOOK_URL w) in
        (case fetch w webhookUrl (webhook_init w f) of
           Inl e \<Rightarrow> (Inl e, [Fetch webhookUrl (webhook_init w f)])
         | Inr webhookResponse \<Rightarrow>
             if \<not> ok webhookResponse then
               (case res_text webhookResponse of
                  Inl e \<Rightarrow> (Inl e, [Fetch webhookUrl (webhook_init w f)])
                | Inr t \<Rightarrow>
                    (Inr (NextResponse_json MSG_SEND_FAILED 500),
                     [Fetch webhookUrl (webhook_init w f),
                      ConsoleError [LogStr (ascii ''Discord webhook failed:''), LogStr t]]))
             else
               (Inr (NextResponse_json MSG_DONE 200),
                Fetch webhookUrl (webhook_init w f) # send_confirmation w f)))"

subsection \<open>Stage 2: the bot check (lines 37-57)\<close>

definition turnstile_init :: "world \<Rightarrow> ContactFormData \<Rightarrow> fetch_init" where
  "turnstile_init w f =
     \<lparr>init_method = ascii ''POST'', init_headers = json_headers,
      init_body = JObj [(ascii ''secret'', env_val (CF_SECRET_KEY w)),
                   (ascii ''response'', turnstileToken f)]\<rparr>"

definition verify :: "world \<Rightarrow> ContactFormData \<Rightarrow> outcome" where
  "verify w f =
     (case fetch w turnstileVerifyUrl (turnstile_init w f) of
        Inl e \<Rightarrow> (Inl e, [Fetch turnstileVerifyUrl (turnstile_init w f)])
      | Inr turnstileResponse \<Rightarrow>
          (case res_json turnstileResponse of
             Inl e \<Rightarrow> (Inl e, [Fetch turnstileVerifyUrl (turnstile_init w f)])
           | Inr turnstileData \<Rightarrow>
               (case get_prop turnstileData (ascii ''success'') of
                  Inl e \<Rightarrow> (Inl e, [Fetch turnstileVerifyUrl (turnstile_init w f)])
                | Inr success \<Rightarrow>
                    if \<not> truthy success then
                      (Inr (NextResponse_json MSG_BOT 400),
                       [Fetch turnstileVerifyUrl (turnstile_init w f),
                        ConsoleError [LogStr (ascii ''Turnstile verification failed:''),
                                      LogVal (read_prop turnstileData ''error-codes'')]])
                    else
                      (fst (notify w f),
                       Fetch turnstileVerifyUrl (turnstile_init w f) # snd (notify w f)))))"

subsection \<open>The whole handler (lines 23-183)\<close>

definition try_block :: "world \<Rightarrow> outcome" where
  "try_block w =
     (case request_json w of
        Inl e \<Rightarrow> (Inl e, [])
      | Inr body \<Rightarrow>
          (case destructure body of
             Inl e \<Rightarrow> (Inl e, [])
           | Inr f \<Rightarrow>
               if \<not> required_present f then (Inr (NextResponse_json MSG_REQUIRED 400), [])
               else verify w f))"

text \<open>What the caller receives, and the effects of the run.\<close>

record run =
  reply :: next_response
  events :: "event list"

definition POST :: "world \<Rightarrow> run" where
  "POST w =
     (case fst (try_block w) of
        Inr r \<Rightarrow> \<lparr>reply = r, events = snd (try_block w)\<rparr>
      | Inl error \<Rightarrow>
          \<lparr>reply = NextResponse_json MSG_SERVER 500,
           events = snd (try_block w)
                    @ [ConsoleError [LogStr (ascii ''Contact form error:''), LogExn error]]\<rparr>)"

text \<open>The outbound calls among the effects.\<close>

fun is_call :: "event \<Rightarrow> bool" where
  "is_call (Fetch u i) = True"
| "is_call (EmailsSend m) = True"
| "is_call (ConsoleError xs) = False"

definition outbound_calls :: "run \<Rightarrow> event list" where
  "outbound_calls r = filter is_call (events r)"

section \<open>Example runs\<close>

text \<open>
  The request of the specification's example: company "Acme", a four-character
  Japanese name, email "t@example.com", an eleven-character Japanese message asking for
  a quotation, consent given, token "tok123", and no phone.
\<close>

definition ex_name :: jsstring where
  "ex_name = [0x7530, 0x4E2D, 0x592A, 0x90CE]"

definition ex_message :: jsstring where
  "ex_message = [0x304A, 0x898B, 0x7A4D, 0x308A, 0x3092, 0x304A, 0x9858, 0x3044, 0x3057,
     0x307E, 0x3059]"

definition ex_body :: jsval where
  "ex_body = JObj [(ascii ''company'', JStr (ascii ''Acme'')),
                   (ascii ''name'', JStr ex_name),
                   (ascii ''email'', JStr (ascii ''t@example.com'')),
                   (ascii ''message'', JStr ex_message),
                   (ascii ''privacyPolicy'', JBool True),
                   (ascii ''turnstileToken'', JStr (ascii ''tok123''))]"

definition ex_form :: ContactFormData where
  "ex_form = \<lparr>company = JStr (ascii ''Acme''), name = JStr ex_name,
              email = JStr (ascii ''t@example.com''), phone = JUndefined,
              message = JStr ex_message, privacyPolicy = JBool True,
              turnstileToken = JStr (ascii ''tok123'')\<rparr>"

text \<open>The same request with a phone number.\<close>

definition ex_body_phone :: jsval where
  "ex_body_phone = JObj [(ascii ''company'', JStr (ascii ''Acme'')),
                   (ascii ''name'', JStr ex_name),
                   (ascii ''email'', JStr (ascii ''t@example.com'')),
                   (ascii ''phone'', JStr (ascii ''03-1234-5678'')),
                   (ascii ''message'', JStr ex_message),
                   (ascii ''privacyPolicy'', JBool True),
                   (ascii ''turnstileToken'', JStr (ascii ''tok123''))]"

definition ex_form_phone :: ContactFormData where
  "ex_form_phone = ex_form\<lparr>phone := JStr (ascii ''03-1234-5678'')\<rparr>"

text \<open>
  A verification response with the given status and \<^verbatim>\<open>success\<close> flag, and a webhook
  response with the given status and body text.
\<close>

definition siteverify_response :: "nat \<Rightarrow> bool \<Rightarrow> string \<Rightarrow> fetch_response" where
  "siteverify_response st b code =
     \<lparr>res_status = st,
      res_json = Inr (JObj [(ascii ''success'', JBool b),
                            (ascii ''error-codes'', JArr [JStr (ascii code)])]),
      res_text = Inr []\<rparr>"

definition webhook_response :: "nat \<Rightarrow> string \<Rightarrow> fetch_response" where
  "webhook_response st t =
     \<lparr>res_status = st, res_json = Inl (Thrown (ascii ''Unexpected end of JSON input'')),
      res_text = Inr (ascii t)\<rparr>"

text \<open>A \<^verbatim>\<open>fetch\<close> that answers the verification endpoint with \<open>v\<close> and any other URL with \<open>h\<close>.\<close>

definition ex_fetch ::
  "exn + fetch_response \<Rightarrow> exn + fetch_response \<Rightarrow> jsstring \<Rightarrow> fetch_init \<Rightarrow> exn + fetch_response"
where
  "ex_fetch v h url i = (if url = turnstileVerifyUrl then v else h)"

definition ex_url :: jsstring where
  "ex_url = ascii ''https://discord.example/api/webhooks/1''"

text \<open>A run in which everything succeeds.\<close>

definition ex_world :: world where
  "ex_world =
     \<lparr>CF_SECRET_KEY = Some (ascii ''cf-secret''),
      WEBHOOK_URL = Some ex_url,
      RESEND_API_KEY = Some (ascii ''re_key''),
      request_json = Inr ex_body,
      fetch = ex_fetch (Inr (siteverify_response 200 True [])) (Inr (webhook_response 204 [])),
      emails_send = (\<lambda>k m. Inr ()),
      to_string = (\<lambda>v. Inl TypeError),
      now_iso = ascii ''2025-01-01T00:00:00.000Z''\<rparr>"

section \<open>Properties\<close>

subsection \<open>How a run is assembled\<close>

lemma try_block_valid:
  "request_json w = Inr b \<Longrightarrow> destructure b = Inr f \<Longrightarrow> required_present f \<Longrightarrow>
   try_block w = verify w f"
  by (simp add: try_block_def)

lemma POST_of_response:
  "try_block w = (Inr r, evs) \<Longrightarrow> POST w = \<lparr>reply = r, events = evs\<rparr>"
  by (simp add: POST_def)

lemma POST_of_throw:
  "try_block w = (Inl e, evs) \<Longrightarrow>
   POST w = \<lparr>reply = NextResponse_json MSG_SERVER 500,
             events = evs @ [ConsoleError [LogStr (ascii ''Contact form error:''), LogExn e]]\<rparr>"
  by (simp add: POST_def)

lemma destructure_ex_body: "destructure ex_body = Inr ex_form"
  by (simp add: destructure_def ex_body_def ex_form_def read_prop_def ascii_def)

lemma destructure_ex_body_phone: "destructure ex_body_phone = Inr ex_form_phone"
  by (simp add: destructure_def ex_body_phone_def ex_form_phone_def ex_form_def read_prop_def
      ascii_def)

lemma required_present_ex_form: "required_present ex_form"
  by (simp add: required_present_def ex_form_def ascii_def ex_name_def ex_message_def)

lemma required_present_ex_form_phone: "required_present ex_form_phone"
  by (simp add: required_present_def ex_form_phone_def ex_form_def ascii_def ex_name_def
      ex_message_def)

subsection \<open>An unparseable request body\<close>

text \<open>
  C9. When \<^verbatim>\<open>request.json()\<close> throws, the handler answers 500 with the generic
  server-error message, not the 400 missing-fields response, and makes no outbound call.
\<close>

theorem invalid_json_server_error:
  assumes "request_json w = Inl e"
  shows "reply (POST w) = NextResponse_json MSG_SERVER 500
       \<and> resp_status (reply (POST w)) = 500
       \<and> reply (POST w) \<noteq> NextResponse_json MSG_REQUIRED 400
       \<and> outbound_calls (POST w) = []"
proof -
  have "try_block w = (Inl e, [])"
    using assms by (simp add: try_block_def)
  then have "POST w = \<lparr>reply = NextResponse_json MSG_SERVER 500,
      events = [ConsoleError [LogStr (ascii ''Contact form error:''), LogExn e]]\<rparr>"
    by (simp add: POST_of_throw)
  then show ?thesis
    by (simp add: outbound_calls_def NextResponse_json_def)
qed

definition world_bad_json :: world where
  "world_bad_json = ex_world\<lparr>request_json := Inl (Thrown (ascii ''Unexpected token''))\<rparr>"

theorem invalid_json_server_error_witness:
  "request_json world_bad_json = Inl (Thrown (ascii ''Unexpected token''))
   \<and> reply (POST world_bad_json) = NextResponse_json MSG_SERVER 500
   \<and> resp_status (reply (POST world_bad_json)) = 500
   \<and> reply (POST world_bad_json) \<noteq> NextResponse_json MSG_REQUIRED 400
   \<and> outbound_calls (POST world_bad_json) = []"
proof -
  have h: "request_json world_bad_json = Inl (Thrown (ascii ''Unexpected token''))"
    by (simp add: world_bad_json_def)
  show ?thesis
    using h invalid_json_server_error [OF h] by blast
qed

end
